theory Spec2Isabelle
  imports Complex_Main "HOL-Library.Sublist"
begin

section \<open>JavaScript values\<close>

text \<open>
  A JavaScript string is a sequence of UTF-16 code units; it is modelled as a list of
  natural numbers, one per code unit, so that \<open>length\<close> is the \<open>.length\<close> of
  the source and \<open>take\<close>/\<open>drop\<close> count what \<open>substring\<close> counts. String literals of
  the source are written \<open>jsstr ''...''\<close>.
\<close>

type_synonym jsstring = "nat list"

definition jsstr :: "string \<Rightarrow> jsstring" where
  "jsstr s = map of_char s"

text \<open>A JavaScript number: a finite value, one of the two infinities, or NaN.\<close>

datatype jsnum = NaN | PosInf | NegInf | Fin real

text \<open>
  The values that \<open>JSON.parse\<close> and property reads on its results can produce.
  An object is the association list of its own properties; a read finds the first
  binding of the key.
\<close>

datatype jsval =
    JUndefined
  | JNull
  | JBool bool
  | JNum jsnum
  | JStr jsstring
  | JArr "jsval list"
  | JObj "(jsstring \<times> jsval) list"

datatype jserror = Error (message: jsstring)

datatype jstype = TUndefined | TObject | TBoolean | TNumber | TString

fun typeof :: "jsval \<Rightarrow> jstype" where
  "typeof JUndefined = TUndefined"
| "typeof JNull = TObject"
| "typeof (JBool b) = TBoolean"
| "typeof (JNum n) = TNumber"
| "typeof (JStr s) = TString"
| "typeof (JArr xs) = TObject"
| "typeof (JObj kvs) = TObject"

text \<open>Truthiness: what \<open>if (v)\<close>, \<open>!v\<close> and \<open>v || d\<close> test.\<close>

fun truthy :: "jsval \<Rightarrow> bool" where
  "truthy JUndefined = False"
| "truthy JNull = False"
| "truthy (JBool b) = b"
| "truthy (JNum NaN) = False"
| "truthy (JNum (Fin r)) = (r \<noteq> 0)"
| "truthy (JNum PosInf) = True"
| "truthy (JNum NegInf) = True"
| "truthy (JStr s) = (s \<noteq> [])"
| "truthy (JArr xs) = True"
| "truthy (JObj kvs) = True"

definition nullish :: "jsval \<Rightarrow> bool" where
  "nullish v = (v = JUndefined \<or> v = JNull)"

text \<open>\<open>a || d\<close>\<close>

definition js_or :: "jsval \<Rightarrow> jsval \<Rightarrow> jsval" where
  "js_or a d = (if truthy a then a else d)"

text \<open>Decimal rendering of a natural number, as a template literal renders it.\<close>

function show_nat :: "nat \<Rightarrow> jsstring" where
  "show_nat n = (if n < 10 then [48 + n] else show_nat (n div 10) @ [48 + n mod 10])"
  by pat_completeness auto
termination
  by (relation "measure id") auto

declare show_nat.simps [simp del]

text \<open>
  \<open>v.k\<close> and \<open>v[k]\<close> on a value that is neither \<open>null\<close> nor \<open>undefined\<close>.
  Arrays and strings answer \<open>length\<close> and their indices; every other read on a
  primitive is \<open>undefined\<close>. Members inherited from the built-in prototypes
  (functions such as \<open>map\<close>) are not values of \<open>jsval\<close>; the program reads
  none of them through this function.
\<close>

fun field :: "jsval \<Rightarrow> jsstring \<Rightarrow> jsval" where
  "field (JObj kvs) k = (case map_of kvs k of None \<Rightarrow> JUndefined | Some v \<Rightarrow> v)"
| "field (JArr xs) k =
     (if k = jsstr ''length'' then JNum (Fin (real (length xs)))
      else (case map_of (zip (map show_nat [0..<length xs]) xs) k of
              None \<Rightarrow> JUndefined | Some v \<Rightarrow> v))"
| "field (JStr s) k =
     (if k = jsstr ''length'' then JNum (Fin (real (length s)))
      else (case map_of (zip (map show_nat [0..<length s]) (map (\<lambda>c. JStr [c]) s)) k of
              None \<Rightarrow> JUndefined | Some v \<Rightarrow> v))"
| "field v k = JUndefined"

text \<open>Optional chaining: \<open>v?.k\<close>.\<close>

definition opt_field :: "jsval \<Rightarrow> jsstring \<Rightarrow> jsval" where
  "opt_field v k = (if nullish v then JUndefined else field v k)"

text \<open>\<open>Array.isArray(v) ? v : []\<close>\<close>

fun array_or_empty :: "jsval \<Rightarrow> jsval list" where
  "array_or_empty (JArr xs) = xs"
| "array_or_empty v = []"

text \<open>
  The parts of the JavaScript platform that the program calls and that are not
  modelled further: \<open>JSON.parse\<close> (which coerces its argument to a string and either
  throws a SyntaxError or returns a value), the TypeError the engine throws for a
  faulty read or call (its message is engine-specific), and the conversion to number of
  strings, arrays and objects.
\<close>

record js_env =
  JSON_parse :: "jsval \<Rightarrow> jserror + jsval"
  typeError :: "jsstring \<Rightarrow> jserror"
  coerceNumber :: "jsval \<Rightarrow> jsnum"

text \<open>\<open>Number(v)\<close> and the implicit conversion of a comparison.\<close>

fun ToNumber :: "js_env \<Rightarrow> jsval \<Rightarrow> jsnum" where
  "ToNumber env JUndefined = NaN"
| "ToNumber env JNull = Fin 0"
| "ToNumber env (JBool b) = (if b then Fin 1 else Fin 0)"
| "ToNumber env (JNum n) = n"
| "ToNumber env v = coerceNumber env v"

fun isNaN :: "jsnum \<Rightarrow> bool" where
  "isNaN NaN = True"
| "isNaN n = False"

text \<open>\<open>Math.max(a, b)\<close> and \<open>Math.min(a, b)\<close>: NaN if either argument is NaN.\<close>

fun Math_max :: "jsnum \<Rightarrow> jsnum \<Rightarrow> jsnum" where
  "Math_max NaN b = NaN"
| "Math_max a NaN = NaN"
| "Math_max PosInf b = PosInf"
| "Math_max a PosInf = PosInf"
| "Math_max NegInf b = b"
| "Math_max a NegInf = a"
| "Math_max (Fin x) (Fin y) = Fin (max x y)"

fun Math_min :: "jsnum \<Rightarrow> jsnum \<Rightarrow> jsnum" where
  "Math_min NaN b = NaN"
| "Math_min a NaN = NaN"
| "Math_min NegInf b = NegInf"
| "Math_min a NegInf = NegInf"
| "Math_min PosInf b = b"
| "Math_min a PosInf = a"
| "Math_min (Fin x) (Fin y) = Fin (min x y)"

text \<open>\<open>a >= b\<close> and \<open>a > b\<close> on numbers: false whenever NaN is involved.\<close>

fun num_ge :: "jsnum \<Rightarrow> jsnum \<Rightarrow> bool" where
  "num_ge NaN b = False"
| "num_ge a NaN = False"
| "num_ge PosInf b = True"
| "num_ge a NegInf = True"
| "num_ge NegInf b = False"
| "num_ge a PosInf = False"
| "num_ge (Fin x) (Fin y) = (y \<le> x)"

fun num_gt :: "jsnum \<Rightarrow> jsnum \<Rightarrow> bool" where
  "num_gt NaN b = False"
| "num_gt a NaN = False"
| "num_gt NegInf b = False"
| "num_gt a PosInf = False"
| "num_gt PosInf b = True"
| "num_gt a NegInf = True"
| "num_gt (Fin x) (Fin y) = (y < x)"

section \<open>String operations\<close>

text \<open>\<open>s.endsWith(suffix)\<close>\<close>

definition endsWith :: "jsstring \<Rightarrow> jsstring \<Rightarrow> bool" where
  "endsWith s suf = (length suf \<le> length s \<and> drop (length s - length suf) s = suf)"

text \<open>
  \<open>s.substring(start, end)\<close> with non-negative integer arguments: both are clamped to
  the length, and swapped when \<open>start\<close> exceeds \<open>end\<close>.
\<close>

definition substring :: "jsstring \<Rightarrow> nat \<Rightarrow> nat \<Rightarrow> jsstring" where
  "substring s start end =
     (let a = min start (length s);
          b = min end (length s);
          lo = min a b;
          hi = max a b
      in take (hi - lo) (drop lo s))"

text \<open>\<open>xs.join(sep)\<close> on an array of strings.\<close>

fun join :: "jsstring \<Rightarrow> jsstring list \<Rightarrow> jsstring" where
  "join sep [] = []"
| "join sep [x] = x"
| "join sep (x # y # ys) = x @ sep @ join sep (y # ys)"

text \<open>
  The code units that \<open>trim\<close> strips: the WhiteSpace and LineTerminator code points of
  ECMAScript (tab, LF, VT, FF, CR, space, NBSP, the Unicode space separators, LS, PS and
  the byte-order mark).
\<close>

definition isWhiteSpace :: "nat \<Rightarrow> bool" where
  "isWhiteSpace c =
     (c = 9 \<or> c = 10 \<or> c = 11 \<or> c = 12 \<or> c = 13 \<or> c = 32 \<or> c = 160 \<or> c = 5760
      \<or> (8192 \<le> c \<and> c \<le> 8202) \<or> c = 8232 \<or> c = 8233 \<or> c = 8239 \<or> c = 8287
      \<or> c = 12288 \<or> c = 65279)"

definition trimStart :: "jsstring \<Rightarrow> jsstring" where
  "trimStart s = dropWhile isWhiteSpace s"

definition trimEnd :: "jsstring \<Rightarrow> jsstring" where
  "trimEnd s = rev (dropWhile isWhiteSpace (rev s))"

definition trim :: "jsstring \<Rightarrow> jsstring" where
  "trim s = trimEnd (trimStart s)"

section \<open>Text extraction: the file-picker upload component\<close>

text \<open>
  An uploaded file: its declared MIME type, its name and its content. What the browser
  and the PDF library make of a file is a parameter: lower-casing of a name, the two
  \<open>FileReader\<close> reads, \<open>file.arrayBuffer()\<close> and \<open>pdfjsLib.getDocument\<close>.
\<close>

record 'c js_file =
  ftype :: jsstring
  fname :: jsstring
  content :: 'c

text \<open>
  A \<open>FileReader\<close> read either throws when it is started, fires \<open>onerror\<close>, or fires
  \<open>onload\<close> with the result.
\<close>

datatype 'r read_outcome = ReadThrows jserror | ReadError | ReadLoaded 'r

text \<open>
  A decoded PDF: the number of pages and, for a page number, the \<open>str\<close> of each item
  of its text content, or \<open>None\<close> when \<open>getPage\<close> or \<open>getTextContent\<close> rejects.
\<close>

record pdf_document =
  numPages :: nat
  pageItems :: "nat \<Rightarrow> jsstring list option"

record 'c file_env =
  toLowerCase :: "jsstring \<Rightarrow> jsstring"
  readAsArrayBuffer :: "'c js_file \<Rightarrow> 'c read_outcome"
  readAsText :: "'c js_file \<Rightarrow> jsstring read_outcome"
  arrayBuffer :: "'c js_file \<Rightarrow> 'c option"
  getDocument :: "'c \<Rightarrow> pdf_document option"

text \<open>
  The page loop of both upload components,
  \<^verbatim>\<open>for (let pageNum = 1; pageNum <= numPages; pageNum++) { ... fullText += strings.join(" ") + sep; }\<close>
  where \<open>sep\<close> is two line feeds in \<open>readPdfFile\<close> and one line feed in the
  drag-and-drop component's \<open>extractText\<close>. \<open>None\<close> is a rejected page read, which
  leaves the loop through the enclosing \<open>catch\<close>.
\<close>

function pdf_pages_loop :: "jsstring \<Rightarrow> pdf_document \<Rightarrow> nat \<Rightarrow> jsstring \<Rightarrow> jsstring option" where
  "pdf_pages_loop sep pdf pageNum fullText =
     (if pageNum \<le> numPages pdf then
        (case pageItems pdf pageNum of
           None \<Rightarrow> None
         | Some strings \<Rightarrow>
             pdf_pages_loop sep pdf (pageNum + 1) (fullText @ join (jsstr '' '') strings @ sep))
      else Some fullText)"
  by pat_completeness auto
termination
  by (relation "measure (\<lambda>(sep, pdf, pageNum, fullText). numPages pdf + 1 - pageNum)") auto

declare pdf_pages_loop.simps [simp del]

definition readPdfFile_failed :: jserror where
  "readPdfFile_failed =
     Error (jsstr ''Failed to read PDF file. Try another file or paste the text manually.'')"

definition readPdfFile :: "'c file_env \<Rightarrow> 'c js_file \<Rightarrow> jserror + jsstring" where
  "readPdfFile env file =
     (case readAsArrayBuffer env file of
        ReadThrows err \<Rightarrow> Inl err
      | ReadError \<Rightarrow> Inl (Error (jsstr ''Unable to read PDF file.''))
      | ReadLoaded typedArray \<Rightarrow>
          (case getDocument env typedArray of
             None \<Rightarrow> Inl readPdfFile_failed
           | Some pdf \<Rightarrow>
               (case pdf_pages_loop (jsstr ''\<newline>\<newline>'') pdf 1 [] of
                  None \<Rightarrow> Inl readPdfFile_failed
                | Some fullText \<Rightarrow> Inr (trim fullText))))"

text \<open>The component's own state (\<open>error\<close>, \<open>isUploading\<close>).\<close>

record upload_state =
  up_error :: "jsstring option"
  up_isUploading :: bool

definition isPdf :: "'c file_env \<Rightarrow> 'c js_file \<Rightarrow> bool" where
  "isPdf env file =
     (ftype file = jsstr ''application/pdf''
      \<or> endsWith (toLowerCase env (fname file)) (jsstr ''.pdf''))"

definition isTxt :: "'c file_env \<Rightarrow> 'c js_file \<Rightarrow> bool" where
  "isTxt env file =
     (ftype file = jsstr ''text/plain''
      \<or> endsWith (toLowerCase env (fname file)) (jsstr ''.txt''))"

definition isDoc :: "'c file_env \<Rightarrow> 'c js_file \<Rightarrow> bool" where
  "isDoc env file =
     (endsWith (toLowerCase env (fname file)) (jsstr ''.doc'')
      \<or> endsWith (toLowerCase env (fname file)) (jsstr ''.docx''))"

definition docx_unsupported :: jserror where
  "docx_unsupported =
     Error (jsstr ''Automatic parsing for DOC/DOCX is not supported. Please save as PDF/TXT or paste the content below.'')"

definition type_unsupported :: "jsstring \<Rightarrow> jserror" where
  "type_unsupported name =
     Error (jsstr ''Unsupported file type: '' @ name
            @ jsstr ''. Please upload a PDF/TXT or paste the content manually.'')"

text \<open>The body of the \<open>try\<close> block of \<open>handleFileUpload\<close>, up to the extracted text.\<close>

definition handleFileUpload_extract :: "'c file_env \<Rightarrow> 'c js_file \<Rightarrow> jserror + jsstring" where
  "handleFileUpload_extract env file =
     (if isPdf env file then readPdfFile env file
      else if isTxt env file then
        (case readAsText env file of
           ReadThrows err \<Rightarrow> Inl err
         | ReadError \<Rightarrow> Inl (Error (jsstr ''Failed to read text file.''))
         | ReadLoaded result \<Rightarrow> Inr result)
      else if isDoc env file then Inl docx_unsupported
      else Inl (type_unsupported (fname file)))"

text \<open>
  \<open>handleFileUpload\<close>: the new component state and the arguments of the calls of
  \<open>onTextExtracted\<close>, in order. No selected file (\<open>event.target.files[0]\<close> undefined)
  returns at once.
\<close>

definition handleFileUpload ::
  "'c file_env \<Rightarrow> upload_state \<Rightarrow> 'c js_file option \<Rightarrow> upload_state \<times> jsstring list" where
  "handleFileUpload env st fileopt =
     (case fileopt of
        None \<Rightarrow> (st, [])
      | Some file \<Rightarrow>
          (case handleFileUpload_extract env file of
             Inr extractedText \<Rightarrow>
               (st\<lparr>up_error := None, up_isUploading := False\<rparr>, [extractedText])
           | Inl e \<Rightarrow>
               (st\<lparr>up_error := Some (message e), up_isUploading := False\<rparr>, [jsstr ''''])))"

section \<open>Text extraction: the drag-and-drop upload component\<close>

record dropzone_state =
  dz_error :: "jsstring option"
  dz_fileName :: jsstring
  dz_isUploading :: bool

definition extractText_try :: "'c file_env \<Rightarrow> 'c js_file \<Rightarrow> jsstring option" where
  "extractText_try env file =
     (case arrayBuffer env file of
        None \<Rightarrow> None
      | Some buf \<Rightarrow>
          (case getDocument env buf of
             None \<Rightarrow> None
           | Some pdf \<Rightarrow>
               (case pdf_pages_loop (jsstr ''\<newline>'') pdf 1 [] of
                  None \<Rightarrow> None
                | Some extractedText \<Rightarrow> Some (trim extractedText))))"

definition extractText_failed :: jsstring where
  "extractText_failed =
     jsstr ''Failed to parse PDF. Please try a different file or check that it is not password-protected.''"

definition extractText ::
  "'c file_env \<Rightarrow> dropzone_state \<Rightarrow> 'c js_file \<Rightarrow> dropzone_state \<times> jsstring list" where
  "extractText env st file =
     (case extractText_try env file of
        Some text \<Rightarrow>
          (st\<lparr>dz_error := None, dz_fileName := fname file, dz_isUploading := False\<rparr>, [text])
      | None \<Rightarrow>
          (st\<lparr>dz_error := Some extractText_failed, dz_fileName := jsstr '''',
              dz_isUploading := False\<rparr>,
           [jsstr '''']))"

definition isPdfType :: "'c file_env \<Rightarrow> 'c js_file \<Rightarrow> bool" where
  "isPdfType env file =
     (ftype file = jsstr ''application/pdf''
      \<or> endsWith (toLowerCase env (fname file)) (jsstr ''.pdf''))"

text \<open>\<open>onDrop\<close>; \<open>None\<close> is a missing \<open>acceptedFiles\<close> argument.\<close>

definition onDrop ::
  "'c file_env \<Rightarrow> dropzone_state \<Rightarrow> 'c js_file list option \<Rightarrow> dropzone_state \<times> jsstring list" where
  "onDrop env st acceptedFiles =
     (case acceptedFiles of
        None \<Rightarrow> (st\<lparr>dz_error := Some (jsstr ''No file received. Please try again.'')\<rparr>, [])
      | Some [] \<Rightarrow> (st\<lparr>dz_error := Some (jsstr ''No file received. Please try again.'')\<rparr>, [])
      | Some (file # rest) \<Rightarrow>
          (if \<not> isPdfType env file then
             (st\<lparr>dz_error := Some (jsstr ''Please upload a valid PDF file (max 5MB).'')\<rparr>, [])
           else extractText env st file))"

text \<open>
  A rejection of the dropzone library: the codes of its \<open>errors\<close>, or \<open>None\<close> when the
  field is missing.
\<close>

record rejection =
  errors :: "jsstring list option"

definition onDropRejected ::
  "dropzone_state \<Rightarrow> rejection list option \<Rightarrow> dropzone_state \<times> jsstring list" where
  "onDropRejected st fileRejections =
     (case fileRejections of
        None \<Rightarrow> (st, [])
      | Some [] \<Rightarrow> (st, [])
      | Some (rejection # rest) \<Rightarrow>
          (if (case errors rejection of
                 None \<Rightarrow> False
               | Some codes \<Rightarrow> list_ex (\<lambda>code. code = jsstr ''file-too-large'') codes)
           then (st\<lparr>dz_error := Some (jsstr ''File is too large. Maximum allowed size is 5MB.'')\<rparr>, [])
           else (st\<lparr>dz_error := Some (jsstr ''File was rejected. Please ensure it is a PDF under 5MB.'')\<rparr>, [])))"

definition clearFile :: "dropzone_state \<Rightarrow> dropzone_state \<times> jsstring list" where
  "clearFile st = (st\<lparr>dz_fileName := jsstr '''', dz_error := None\<rparr>, [jsstr ''''])"

section \<open>Consumers of the analysis result\<close>

subsection \<open>AnalysisResults\<close>

text \<open>
  What the report hands to the renderer: the two headline scores, the \<open>score\<close> of the
  four breakdown items, the summary, and the items of each list. Colours and layout are
  left out.
\<close>

record report =
  r_matchPercentage :: jsval
  r_atsScore :: jsval
  r_keywords :: jsval
  r_experience :: jsval
  r_skills :: jsval
  r_education :: jsval
  r_summary :: jsval
  r_strengths :: "jsval list"
  r_weaknesses :: "jsval list"
  r_missingKeywords :: "jsval list"
  r_keyChanges :: "jsval list"
  r_feedback_skills :: "jsval list"
  r_feedback_experience :: "jsval list"
  r_feedback_education :: "jsval list"

datatype view = Spinner | AwaitingInput | ClickAnalyze | Report report

text \<open>A destructuring default \<open>{ k = d }\<close>: it applies to \<open>undefined\<close> only.\<close>

definition destructure :: "jsval \<Rightarrow> jsstring \<Rightarrow> jsval \<Rightarrow> jsval" where
  "destructure obj k d = (if field obj k = JUndefined then d else field obj k)"

text \<open>
  \<^verbatim>\<open>missingKeywords.length > 0 ? missingKeywords.map(...) : <p>...</p>\<close>: the keywords
  shown, or the TypeError of reading \<open>length\<close> of \<open>null\<close> or of calling a \<open>map\<close> that
  is not a function.
\<close>

fun missingKeywords_items :: "js_env \<Rightarrow> jsval \<Rightarrow> jserror + jsval list" where
  "missingKeywords_items env JUndefined = Inl (typeError env (jsstr ''length''))"
| "missingKeywords_items env JNull = Inl (typeError env (jsstr ''length''))"
| "missingKeywords_items env (JArr xs) = Inr xs"
| "missingKeywords_items env (JStr s) =
     (if s \<noteq> [] then Inl (typeError env (jsstr ''map'')) else Inr [])"
| "missingKeywords_items env (JObj kvs) =
     (if num_gt (ToNumber env (field (JObj kvs) (jsstr ''length''))) (Fin 0)
      then Inl (typeError env (jsstr ''map'')) else Inr [])"
| "missingKeywords_items env v = Inr []"

definition AnalysisResults :: "js_env \<Rightarrow> jsval \<Rightarrow> bool \<Rightarrow> bool \<Rightarrow> jserror + view" where
  "AnalysisResults env analysis loading hasData =
     (if loading then Inr Spinner
      else if \<not> hasData then Inr AwaitingInput
      else if \<not> truthy analysis then Inr ClickAnalyze
      else
        (let a = js_or analysis (JObj []);
             matchPercentage = destructure a (jsstr ''matchPercentage'') (JNum (Fin 0));
             atsScore = destructure a (jsstr ''atsScore'') (JNum (Fin 0));
             scoreBreakdown = destructure a (jsstr ''scoreBreakdown'') (JObj []);
             missingKeywords = destructure a (jsstr ''missingKeywords'') (JArr []);
             sectionFeedback = destructure a (jsstr ''sectionFeedback'') (JObj []);
             strengths = destructure a (jsstr ''strengths'') (JArr []);
             weaknesses = destructure a (jsstr ''weaknesses'') (JArr []);
             keyChanges = destructure a (jsstr ''keyChanges'') (JArr []);
             summary = destructure a (jsstr ''summary'') (JStr (jsstr ''''))
         in case missingKeywords_items env missingKeywords of
              Inl e \<Rightarrow> Inl e
            | Inr keywords \<Rightarrow>
                Inr (Report
                  \<lparr>r_matchPercentage = matchPercentage,
                   r_atsScore = atsScore,
                   r_keywords = js_or (opt_field scoreBreakdown (jsstr ''keywords'')) (JNum (Fin 0)),
                   r_experience = js_or (opt_field scoreBreakdown (jsstr ''experience'')) (JNum (Fin 0)),
                   r_skills = js_or (opt_field scoreBreakdown (jsstr ''skills'')) (JNum (Fin 0)),
                   r_education = js_or (opt_field scoreBreakdown (jsstr ''education'')) (JNum (Fin 0)),
                   r_summary = summary,
                   r_strengths = array_or_empty strengths,
                   r_weaknesses = array_or_empty weaknesses,
                   r_missingKeywords = keywords,
                   r_keyChanges = array_or_empty keyChanges,
                   r_feedback_skills = array_or_empty (opt_field sectionFeedback (jsstr ''skills'')),
                   r_feedback_experience =
                     array_or_empty (opt_field sectionFeedback (jsstr ''experience'')),
                   r_feedback_education =
                     array_or_empty (opt_field sectionFeedback (jsstr ''education''))\<rparr>)))"

subsection \<open>ScoreBreakdown\<close>

definition getSafeScore :: "js_env \<Rightarrow> jsval \<Rightarrow> jsstring \<Rightarrow> jsnum" where
  "getSafeScore env breakdown name =
     (if \<not> truthy breakdown \<or> typeof breakdown \<noteq> TObject then Fin 0
      else
        (let raw = field breakdown name;
             num = (case raw of JNum n \<Rightarrow> n | _ \<Rightarrow> ToNumber env raw)
         in if isNaN num then Fin 0
            else Math_min (Math_max num (Fin 0)) (Fin 100)))"

definition sections :: "jsstring list" where
  "sections = [jsstr ''skills'', jsstr ''experience'', jsstr ''education'', jsstr ''keywords'']"

text \<open>The score shown for each section, in the order of \<open>sections\<close>.\<close>

definition ScoreBreakdown :: "js_env \<Rightarrow> jsval \<Rightarrow> (jsstring \<times> jsnum) list" where
  "ScoreBreakdown env breakdown = map (\<lambda>name. (name, getSafeScore env breakdown name)) sections"

subsection \<open>ATSCompatibility\<close>

text \<open>\<open>normalizedScore\<close>: \<open>None\<close> is \<open>null\<close>, shown as \<open>N/A\<close>.\<close>

definition normalizedScore :: "jsval \<Rightarrow> jsnum option" where
  "normalizedScore score =
     (case score of
        JNum n \<Rightarrow> (if \<not> isNaN n then Some (Math_min (Math_max n (Fin 0)) (Fin 100)) else None)
      | _ \<Rightarrow> None)"

definition getATSStatus :: "jsnum option \<Rightarrow> jsstring" where
  "getATSStatus val =
     (case val of
        None \<Rightarrow> jsstr ''Not available''
      | Some v \<Rightarrow>
          (if num_ge v (Fin 80) then jsstr ''Excellent''
           else if num_ge v (Fin 60) then jsstr ''Good''
           else if num_ge v (Fin 40) then jsstr ''Fair''
           else jsstr ''Poor''))"

text \<open>The badge of the component: the number shown, if any, and the status text.\<close>

definition ATSCompatibility :: "jsval \<Rightarrow> jsnum option \<times> jsstring" where
  "ATSCompatibility score = (normalizedScore score, getATSStatus (normalizedScore score))"

section \<open>The analysis request\<close>

subsection \<open>Request construction\<close>

datatype schema =
    NUMBER "jsstring option"
  | STRING
  | ARRAY schema
  | OBJECT "(jsstring \<times> schema) list" "jsstring list option"

definition analysisSchema :: schema where
  "analysisSchema =
     OBJECT
       [(jsstr ''matchPercentage'', NUMBER (Some (jsstr ''Overall match score (0-100)''))),
        (jsstr ''scoreBreakdown'',
           OBJECT [(jsstr ''skills'', NUMBER None), (jsstr ''experience'', NUMBER None),
                   (jsstr ''education'', NUMBER None), (jsstr ''keywords'', NUMBER None)] None),
        (jsstr ''atsScore'', NUMBER (Some (jsstr ''Applicant Tracking System score (0-100)''))),
        (jsstr ''missingKeywords'', ARRAY STRING),
        (jsstr ''sectionFeedback'',
           OBJECT [(jsstr ''skills'', ARRAY STRING), (jsstr ''experience'', ARRAY STRING),
                   (jsstr ''education'', ARRAY STRING)] None),
        (jsstr ''strengths'', ARRAY STRING),
        (jsstr ''weaknesses'', ARRAY STRING),
        (jsstr ''keyChanges'', ARRAY STRING),
        (jsstr ''summary'', STRING)]
       (Some [jsstr ''matchPercentage'', jsstr ''scoreBreakdown'', jsstr ''atsScore'',
              jsstr ''missingKeywords'', jsstr ''sectionFeedback'', jsstr ''strengths'',
              jsstr ''weaknesses'', jsstr ''keyChanges'', jsstr ''summary''])"

text \<open>The fields that the schema declares as required.\<close>

definition required_fields :: "jsstring list" where
  "required_fields = (case analysisSchema of OBJECT props (Some req) \<Rightarrow> req | _ \<Rightarrow> [])"

record generationConfig =
  temperature :: real
  responseMimeType :: jsstring
  responseSchema :: schema

text \<open>\<open>contents\<close> is the list of entries, each the list of the texts of its parts.\<close>

record payload =
  contents :: "jsstring list list"
  generationConfig :: generationConfig

text \<open>
  The options of the request. \<open>body\<close> holds the payload that the source hands to
  \<open>JSON.stringify\<close>.
\<close>

record request_options =
  http_method :: jsstring
  headers :: "(jsstring \<times> jsstring) list"
  body :: payload

definition prompt_head :: jsstring where
  "prompt_head =
     jsstr ''ANALYSIS REQUEST:\<newline>You are a professional resume analyzer. Analyze the provided RESUME against the JOB DESCRIPTION.\<newline>\<newline>TASK: Calculate all scores and provide detailed feedback exactly according to the requested JSON schema.\<newline>\<newline>RESUME:\<newline>''"

definition prompt_mid :: jsstring where
  "prompt_mid = jsstr ''\<newline>\<newline>JOB DESCRIPTION:\<newline>''"

text \<open>The two texts as the template literal embeds them.\<close>

definition embeddedResume :: "jsstring \<Rightarrow> jsstring" where
  "embeddedResume resumeText = substring resumeText 0 10000"

definition embeddedJobDescription :: "jsstring \<Rightarrow> jsstring" where
  "embeddedJobDescription jobDescription = substring jobDescription 0 5000"

definition buildPrompt :: "jsstring \<Rightarrow> jsstring \<Rightarrow> jsstring" where
  "buildPrompt resumeText jobDescription =
     prompt_head @ embeddedResume resumeText @ prompt_mid @ embeddedJobDescription jobDescription"

definition buildPayload :: "jsstring \<Rightarrow> jsstring \<Rightarrow> payload" where
  "buildPayload resumeText jobDescription =
     \<lparr>contents = [[buildPrompt resumeText jobDescription]],
      generationConfig =
        \<lparr>temperature = 0.1,
         responseMimeType = jsstr ''application/json'',
         responseSchema = analysisSchema\<rparr>\<rparr>"

definition apiUrl_base :: jsstring where
  "apiUrl_base =
     jsstr ''https://generativelanguage.googleapis.com/v1beta/models/gemini-2.5-flash-preview-09-2025:generateContent?key=''"

subsection \<open>Transport with retry\<close>

text \<open>
  A response as the program reads it: \<open>ok\<close>, \<open>status\<close>, and what \<open>response.json()\<close>
  settles to. A call of \<open>fetch\<close> rejects or resolves to a response; the transport is
  a parameter that answers the call of each loop iteration. The trace records each
  call of \<open>fetch\<close> and each timer delay in milliseconds.
\<close>

record response =
  ok :: bool
  status :: nat
  json :: "jserror + jsval"

datatype fetch_outcome = Rejected jserror | Resolved response

datatype 'o event = Fetch jsstring 'o | Sleep nat

type_synonym 'o transport = "nat \<Rightarrow> jsstring \<Rightarrow> 'o \<Rightarrow> fetch_outcome"

text \<open>
  The \<open>try\<close> block of one iteration. \<open>Inl\<close> is an error that the \<open>catch\<close> receives:
  a rejected \<open>fetch\<close> or the error thrown for a response that is not \<open>ok\<close>.
  \<open>Inr\<close> is the value of \<open>return response.json()\<close>: the promise is returned without
  \<open>await\<close>, so its rejection is not caught by the loop and settles the call.
\<close>

definition fetch_attempt ::
  "'o transport \<Rightarrow> jsstring \<Rightarrow> 'o \<Rightarrow> nat \<Rightarrow> jserror + (jserror + jsval)" where
  "fetch_attempt fetch url options i =
     (case fetch i url options of
        Rejected error \<Rightarrow> Inl error
      | Resolved response \<Rightarrow>
          (if \<not> ok response then
             Inl (Error (jsstr ''HTTP error! status: '' @ show_nat (status response)))
           else Inr (json response)))"

function fetchWithRetry_loop ::
  "'o transport \<Rightarrow> jsstring \<Rightarrow> 'o \<Rightarrow> nat \<Rightarrow> nat \<Rightarrow> 'o event list
     \<Rightarrow> (jserror + jsval) \<times> 'o event list" where
  "fetchWithRetry_loop fetch url options retries i trace =
     (if i < retries then
        (case fetch_attempt fetch url options i of
           Inr result \<Rightarrow> (result, trace @ [Fetch url options])
         | Inl error \<Rightarrow>
             (if i < retries - 1 then
                fetchWithRetry_loop fetch url options retries (i + 1)
                  (trace @ [Fetch url options, Sleep (2 ^ i * 1000)])
              else (Inl error, trace @ [Fetch url options])))
      else (Inr JUndefined, trace))"
  by pat_completeness auto
termination
  by (relation "measure (\<lambda>(fetch, url, options, retries, i, trace). retries - i)") auto

declare fetchWithRetry_loop.simps [simp del]

text \<open>\<open>fetchWithRetry(url, options, retries = 3)\<close>; \<open>None\<close> is the omitted argument.\<close>

definition fetchWithRetry ::
  "'o transport \<Rightarrow> jsstring \<Rightarrow> 'o \<Rightarrow> nat option \<Rightarrow> (jserror + jsval) \<times> 'o event list" where
  "fetchWithRetry fetch url options retries =
     fetchWithRetry_loop fetch url options (case retries of None \<Rightarrow> 3 | Some r \<Rightarrow> r) 0 []"

subsection \<open>Response handling\<close>

definition invalid_response :: jserror where
  "invalid_response = Error (jsstr ''API returned an invalid or empty structured response.'')"

text \<open>
  \<^verbatim>\<open>apiResponse.candidates?.[0]\<close> for a response that is neither \<open>null\<close> nor
  \<open>undefined\<close>, and \<^verbatim>\<open>candidate?.content?.parts?.[0]?.text\<close>, the nested text blob.
\<close>

definition candidate_of :: "jsval \<Rightarrow> jsval" where
  "candidate_of apiResponse = opt_field (field apiResponse (jsstr ''candidates'')) (jsstr ''0'')"

definition jsonText_of :: "jsval \<Rightarrow> jsval" where
  "jsonText_of candidate =
     opt_field
       (opt_field (opt_field (opt_field candidate (jsstr ''content'')) (jsstr ''parts''))
          (jsstr ''0''))
       (jsstr ''text'')"

text \<open>
  The \<open>try\<close> block of \<open>extractJSON\<close>. Reading \<open>candidates\<close> of \<open>null\<close> or
  \<open>undefined\<close> throws a TypeError.
\<close>

definition extractJSON_try :: "js_env \<Rightarrow> jsval \<Rightarrow> jserror + jsval" where
  "extractJSON_try env apiResponse =
     (if nullish apiResponse then Inl (typeError env (jsstr ''candidates''))
      else
        (let candidate = candidate_of apiResponse;
             jsonText = jsonText_of candidate
         in if truthy jsonText then
              (case JSON_parse env jsonText of
                 Inl e \<Rightarrow> Inl e
               | Inr parsed \<Rightarrow>
                   (if truthy parsed \<and> typeof parsed = TObject then Inr parsed
                    else Inl invalid_response))
            else Inl invalid_response))"

definition extractJSON :: "js_env \<Rightarrow> jsval \<Rightarrow> jserror + jsval" where
  "extractJSON env apiResponse =
     (case extractJSON_try env apiResponse of
        Inr parsed \<Rightarrow> Inr parsed
      | Inl e \<Rightarrow> Inl (Error (jsstr ''Failed to process analysis: '' @ message e)))"

subsection \<open>The analysis operation\<close>

definition missing_key :: jserror where
  "missing_key =
     Error (jsstr ''Gemini API key is missing. Set VITE_GEMINI_API_KEY in your .env.local file.'')"

definition missing_matchPercentage :: jserror where
  "missing_matchPercentage =
     Error (jsstr ''Invalid analysis format received - missing matchPercentage'')"

definition request_of :: "jsstring \<Rightarrow> jsstring \<Rightarrow> request_options" where
  "request_of resumeText jobDescription =
     \<lparr>http_method = jsstr ''POST'',
      headers = [(jsstr ''Content-Type'', jsstr ''application/json'')],
      body = buildPayload resumeText jobDescription\<rparr>"

text \<open>
  The \<open>try\<close> block of \<open>analyzeResume\<close>: the parsed analysis or the error that the
  \<open>catch\<close> receives, with the trace of the transport. \<open>apiKey\<close> is the environment
  variable, \<open>None\<close> when it is not defined.
\<close>

definition analyzeResume_try ::
  "js_env \<Rightarrow> request_options transport \<Rightarrow> jsstring option \<Rightarrow> jsstring \<Rightarrow> jsstring
     \<Rightarrow> (jserror + jsval) \<times> request_options event list" where
  "analyzeResume_try env fetch apiKey resumeText jobDescription =
     (case apiKey of
        None \<Rightarrow> (Inl missing_key, [])
      | Some key \<Rightarrow>
          (if key = [] then (Inl missing_key, [])
           else
             (case fetchWithRetry fetch (apiUrl_base @ key)
                     (request_of resumeText jobDescription) None of
                (Inl error, trace) \<Rightarrow> (Inl error, trace)
              | (Inr result, trace) \<Rightarrow>
                  (case extractJSON env result of
                     Inl error \<Rightarrow> (Inl error, trace)
                   | Inr parsed \<Rightarrow>
                       (if typeof (opt_field parsed (jsstr ''matchPercentage'')) \<noteq> TNumber
                        then (Inl missing_matchPercentage, trace)
                        else (Inr parsed, trace))))))"

text \<open>The state of \<open>App\<close>; \<open>analysis\<close> is \<open>null\<close> until a result is stored.\<close>

record app_state =
  resumeText :: jsstring
  jobDescription :: jsstring
  analysis :: jsval
  loading :: bool
  apiError :: jsstring
  originalResumeText :: jsstring

definition analysis_failed :: "jserror \<Rightarrow> jsstring" where
  "analysis_failed error =
     jsstr ''Analysis failed: '' @ message error
     @ jsstr ''. Please try again with different content.''"

definition analyzeResume ::
  "js_env \<Rightarrow> request_options transport \<Rightarrow> jsstring option \<Rightarrow> app_state
     \<Rightarrow> app_state \<times> request_options event list" where
  "analyzeResume env fetch apiKey s =
     (if resumeText s = [] \<or> jobDescription s = [] then (s, [])
      else
        (let s1 = s\<lparr>loading := True, analysis := JNull, apiError := jsstr '''',
                    originalResumeText := resumeText s\<rparr>
         in case analyzeResume_try env fetch apiKey (resumeText s) (jobDescription s) of
              (Inr parsed, trace) \<Rightarrow> (s1\<lparr>analysis := parsed, loading := False\<rparr>, trace)
            | (Inl error, trace) \<Rightarrow>
                (s1\<lparr>apiError := analysis_failed error, loading := False\<rparr>, trace)))"

text \<open>The callback that \<open>App\<close> hands to the upload component as \<open>onTextExtracted\<close>.\<close>

definition onTextExtracted :: "app_state \<Rightarrow> jsstring \<Rightarrow> app_state" where
  "onTextExtracted s text = s\<lparr>resumeText := text, originalResumeText := text\<rparr>"

section \<open>The results panel\<close>

text \<open>The results panel as \<open>App\<close> renders it from its state.\<close>

definition App_results :: "js_env \<Rightarrow> app_state \<Rightarrow> jserror + view" where
  "App_results env s =
     AnalysisResults env (analysis s) (loading s) (resumeText s \<noteq> [] \<and> jobDescription s \<noteq> [])"

section \<open>Concrete inputs\<close>

text \<open>
  A platform and a few inputs on which the definitions are evaluated below. Lower-casing
  is that of the ASCII letters; a file whose content is \<open>2\<close> decodes to a PDF of two
  pages, any other content does not decode.
\<close>

definition asciiLower :: "jsstring \<Rightarrow> jsstring" where
  "asciiLower s = map (\<lambda>c. if 65 \<le> c \<and> c \<le> 90 then c + 32 else c) s"

definition sample_pdf :: pdf_document where
  "sample_pdf =
     \<lparr>numPages = 2,
      pageItems = (\<lambda>n. if n = 1 then Some [jsstr ''Jane'', jsstr ''Doe'']
                        else if n = 2 then Some [jsstr ''Engineer'']
                        else None)\<rparr>"

definition sample_file_env :: "nat file_env" where
  "sample_file_env =
     \<lparr>toLowerCase = asciiLower,
      readAsArrayBuffer = (\<lambda>f. ReadLoaded (content f)),
      readAsText = (\<lambda>f. if content f = 0 then ReadError else ReadLoaded (jsstr ''plain text'')),
      arrayBuffer = (\<lambda>f. Some (content f)),
      getDocument = (\<lambda>c. if c = 2 then Some sample_pdf else None)\<rparr>"

definition sample_file :: "string \<Rightarrow> string \<Rightarrow> nat \<Rightarrow> nat js_file" where
  "sample_file type name c = \<lparr>ftype = jsstr type, fname = jsstr name, content = c\<rparr>"

definition sample_upload_state :: upload_state where
  "sample_upload_state = \<lparr>up_error = None, up_isUploading = False\<rparr>"

definition sample_dropzone_state :: dropzone_state where
  "sample_dropzone_state =
     \<lparr>dz_error = None, dz_fileName = jsstr ''old.pdf'', dz_isUploading = False\<rparr>"

text \<open>
  A \<open>JSON.parse\<close> that knows six texts, an envelope that nests a text blob, and a
  transport that answers the attempts from a list and rejects once the list is used up.
\<close>

definition sample_js_env :: js_env where
  \<open>sample_js_env =
     \<lparr>JSON_parse =
        (\<lambda>v. if v = JStr (jsstr ''{"matchPercentage": 72}'')
                then Inr (JObj [(jsstr ''matchPercentage'', JNum (Fin 72))])
              else if v = JStr (jsstr ''{"matchPercentage": 150}'')
                then Inr (JObj [(jsstr ''matchPercentage'', JNum (Fin 150))])
              else if v = JStr (jsstr ''{"summary": "ok"}'')
                then Inr (JObj [(jsstr ''summary'', JStr (jsstr ''ok''))])
              else if v = JStr (jsstr ''[72]'')
                then Inr (JArr [JNum (Fin 72)])
              else if v = JStr (jsstr ''null'')
                then Inr JNull
              else if v = JStr (jsstr ''72'')
                then Inr (JNum (Fin 72))
              else Inl (Error (jsstr ''Unexpected token''))),
      typeError = (\<lambda>k. Error (jsstr ''Cannot read properties (reading '' @ k @ jsstr '')'')),
      coerceNumber = (\<lambda>v. NaN)\<rparr>\<close>

definition sample_envelope :: "jsval \<Rightarrow> jsval" where
  "sample_envelope blob =
     JObj [(jsstr ''candidates'',
            JArr [JObj [(jsstr ''content'',
                         JObj [(jsstr ''parts'', JArr [JObj [(jsstr ''text'', blob)]])])]])]"

definition sample_transport :: "fetch_outcome list \<Rightarrow> 'o transport" where
  "sample_transport outcomes =
     (\<lambda>i url options. if i < length outcomes then outcomes ! i
                       else Rejected (Error (jsstr ''Failed to fetch'')))"

definition sample_ok :: "jsval \<Rightarrow> fetch_outcome" where
  "sample_ok v = Resolved \<lparr>ok = True, status = 200, json = Inr v\<rparr>"


definition sample_state :: app_state where
  "sample_state =
     \<lparr>resumeText = jsstr ''Jane Doe Engineer'',
      jobDescription = jsstr ''Engineer wanted'',
      analysis = JNull,
      loading = False,
      apiError = jsstr '''',
      originalResumeText = jsstr ''Jane Doe Engineer''\<rparr>"


section \<open>Basic facts\<close>

lemma jsstr_Nil [simp]: "jsstr [] = []"
  by (simp add: jsstr_def)

lemma jsstr_eq_iff [simp]: "jsstr a = jsstr b \<longleftrightarrow> a = b"
  by (simp add: jsstr_def inj_map_eq_map [OF inj_of_char])

lemma jsstr_eq_Nil [simp]: "jsstr a = [] \<longleftrightarrow> a = []" "[] = jsstr a \<longleftrightarrow> a = []"
  by (auto simp add: jsstr_def)


lemma show_nat_0 [simp]: "show_nat 0 = jsstr ''0''"
  by (simp add: show_nat.simps jsstr_def)

lemma show_nat_digits: "set (show_nat n) \<subseteq> {48..57}"
proof (induction n rule: show_nat.induct)
  case (1 n)
  show ?case
  proof (cases "n < 10")
    case True
    then show ?thesis by (subst show_nat.simps) simp
  next
    case False
    have "n mod 10 < 10" by simp
    then have "48 + n mod 10 \<in> {48..57}" by simp
    with 1 False show ?thesis by (subst show_nat.simps) simp
  qed
qed

lemma show_nat_not_name:
  assumes "k \<noteq> []" and "hd k \<notin> {48..57}"
  shows "show_nat n \<noteq> k"
proof
  assume "show_nat n = k"
  with assms have "hd k \<in> set (show_nat n)" by auto
  with show_nat_digits assms show False by blast
qed

text \<open>An array has no property whose name starts with a letter, \<open>length\<close> apart.\<close>

lemma field_JArr_name:
  assumes "k \<noteq> []" and "hd k \<notin> {48..57}" and "k \<noteq> jsstr ''length''"
  shows "field (JArr xs) k = JUndefined"
proof -
  have "k \<notin> fst ` set (zip (map show_nat [0..<length xs]) xs)"
  proof
    assume "k \<in> fst ` set (zip (map show_nat [0..<length xs]) xs)"
    then obtain v where "(k, v) \<in> set (zip (map show_nat [0..<length xs]) xs)" by auto
    then have "k \<in> set (map show_nat [0..<length xs])" by (rule set_zip_leftD)
    then obtain n where "k = show_nat n" by auto
    with show_nat_not_name [OF assms(1,2)] show False by blast
  qed
  then have none: "map_of (zip (map show_nat [0..<length xs]) xs) k = None"
    by (simp add: map_of_eq_None_iff)
  show ?thesis by (simp add: assms(3) none)
qed

lemma field_JArr_matchPercentage [simp]:
  "field (JArr xs) (jsstr ''matchPercentage'') = JUndefined"
  by (rule field_JArr_name) (simp_all add: jsstr_def)

lemma field_JArr_0 [simp]: "field (JArr (x # xs)) (jsstr ''0'') = x"
  by (simp add: upt_conv_Cons del: upt_Suc)

declare field.simps(2) [simp del]

lemma field_JObj_Cons [simp]:
  "field (JObj ((k, v) # kvs)) k' = (if k' = k then v else field (JObj kvs) k')"
  by simp

lemma field_JObj_Nil [simp]: "field (JObj []) k = JUndefined"
  by simp

declare field.simps(1) [simp del]

lemma sample_blob [simp]: "jsonText_of (candidate_of (sample_envelope blob)) = blob"
  by (simp add: jsonText_of_def candidate_of_def sample_envelope_def opt_field_def nullish_def)

section \<open>The retry loop\<close>

text \<open>With the default of three attempts the loop unfolds to three nested attempts.\<close>

lemma fetchWithRetry_unfolded:
  "fetchWithRetry fetch url options None =
     (case fetch_attempt fetch url options 0 of
        Inr r \<Rightarrow> (r, [Fetch url options])
      | Inl e0 \<Rightarrow>
          (case fetch_attempt fetch url options 1 of
             Inr r \<Rightarrow> (r, [Fetch url options, Sleep 1000, Fetch url options])
           | Inl e1 \<Rightarrow>
               (case fetch_attempt fetch url options 2 of
                  Inr r \<Rightarrow>
                    (r, [Fetch url options, Sleep 1000, Fetch url options, Sleep 2000,
                         Fetch url options])
                | Inl e2 \<Rightarrow>
                    (Inl e2, [Fetch url options, Sleep 1000, Fetch url options, Sleep 2000,
                              Fetch url options]))))"
  by (simp add: fetchWithRetry_def fetchWithRetry_loop.simps numeral_2_eq_2 split: sum.splits)

lemma fetchWithRetry_first_ok:
  "fetch 0 url options = Resolved \<lparr>ok = True, status = st, json = Inr v\<rparr>
   \<Longrightarrow> fetchWithRetry fetch url options None = (Inr v, [Fetch url options])"
  by (simp add: fetchWithRetry_unfolded fetch_attempt_def)





section \<open>The analysis operation\<close>



text \<open>
  C8. When the resume text or the job description is empty, \<open>analyzeResume\<close> returns at
  once: the state, with its analysis result, loading flag and error, is unchanged, and
  \<open>fetch\<close> is not called.
\<close>

theorem analyzeResume_noop:
  "resumeText s = [] \<or> jobDescription s = [] \<Longrightarrow> analyzeResume env fetch apiKey s = (s, [])"
  by (simp add: analyzeResume_def)

theorem analyzeResume_noop_witness:
  "analyzeResume sample_js_env (sample_transport [sample_ok (JObj [])]) (Some (jsstr ''k''))
     (sample_state\<lparr>jobDescription := jsstr ''''\<rparr>)
   = (sample_state\<lparr>jobDescription := jsstr ''''\<rparr>, [])"
  using analyzeResume_noop
    [of "sample_state\<lparr>jobDescription := jsstr ''''\<rparr>" sample_js_env
        "sample_transport [sample_ok (JObj [])]" "Some (jsstr ''k'')"]
  by simp

text \<open>
  C3. When the transport delivers an envelope whose nested text blob parses to an object
  that has no numeric \<open>matchPercentage\<close>, \<open>analyzeResume\<close> throws the error for the
  missing \<open>matchPercentage\<close> and catches it: the stored analysis is \<open>null\<close>, the error
  state holds the message, loading is off, and the results panel shows no report.
\<close>

theorem missing_matchPercentage_rejected:
  assumes "resumeText s \<noteq> []" and "jobDescription s \<noteq> []" and "key \<noteq> []"
    and "fetchWithRetry fetch (apiUrl_base @ key)
           (request_of (resumeText s) (jobDescription s)) None = (Inr envelope, trace)"
    and "\<not> nullish envelope"
    and "truthy (jsonText_of (candidate_of envelope))"
    and "JSON_parse env (jsonText_of (candidate_of envelope)) = Inr (JObj kvs)"
    and "typeof (field (JObj kvs) (jsstr ''matchPercentage'')) \<noteq> TNumber"
  shows "analyzeResume env fetch (Some key) s =
           (s\<lparr>loading := False, analysis := JNull,
              apiError := analysis_failed missing_matchPercentage,
              originalResumeText := resumeText s\<rparr>, trace)
         \<and> analysis (fst (analyzeResume env fetch (Some key) s)) = JNull
         \<and> apiError (fst (analyzeResume env fetch (Some key) s)) \<noteq> []
         \<and> App_results env (fst (analyzeResume env fetch (Some key) s)) = Inr ClickAnalyze"
proof -
  have ex: "extractJSON env envelope = Inr (JObj kvs)"
    using assms(5-7) by (simp add: extractJSON_def extractJSON_try_def)
  have attempt: "analyzeResume_try env fetch (Some key) (resumeText s) (jobDescription s)
               = (Inl missing_matchPercentage, trace)"
    using assms(3,4,8) ex by (simp add: analyzeResume_try_def opt_field_def nullish_def)
  have run: "analyzeResume env fetch (Some key) s =
           (s\<lparr>loading := False, analysis := JNull,
              apiError := analysis_failed missing_matchPercentage,
              originalResumeText := resumeText s\<rparr>, trace)"
    using assms(1,2) attempt by (simp add: analyzeResume_def)
  have msg: "analysis_failed missing_matchPercentage \<noteq> []"
    by (simp add: analysis_failed_def)
  show ?thesis
    using assms(1,2) msg by (simp add: run App_results_def AnalysisResults_def)
qed

theorem missing_matchPercentage_rejected_witness:
  \<open>analyzeResume sample_js_env
      (sample_transport [sample_ok (sample_envelope (JStr (jsstr ''{"summary": "ok"}'')))])
      (Some (jsstr ''k'')) (sample_state\<lparr>analysis := JObj []\<rparr>)
    = (sample_state\<lparr>apiError := analysis_failed missing_matchPercentage\<rparr>,
       [Fetch (apiUrl_base @ jsstr ''k'')
          (request_of (jsstr ''Jane Doe Engineer'') (jsstr ''Engineer wanted''))])\<close>
proof -
  let ?s = "sample_state\<lparr>analysis := JObj []\<rparr>"
  let ?blob = \<open>JStr (jsstr ''{"summary": "ok"}'')\<close>
  let ?fetch = "sample_transport [sample_ok (sample_envelope ?blob)]"
  have h1: "resumeText ?s \<noteq> []" and h2: "jobDescription ?s \<noteq> []"
    by (simp_all add: sample_state_def)
  have h3: "jsstr ''k'' \<noteq> []" by simp
  have h4: "fetchWithRetry ?fetch (apiUrl_base @ jsstr ''k'')
               (request_of (resumeText ?s) (jobDescription ?s)) None
             = (Inr (sample_envelope ?blob),
                [Fetch (apiUrl_base @ jsstr ''k'')
                   (request_of (resumeText ?s) (jobDescription ?s))])"
    by (rule fetchWithRetry_first_ok) (simp add: sample_transport_def sample_ok_def)
  have h5: "\<not> nullish (sample_envelope ?blob)"
    by (simp add: nullish_def sample_envelope_def)
  have h6: "truthy (jsonText_of (candidate_of (sample_envelope ?blob)))" by simp
  have h7: "JSON_parse sample_js_env (jsonText_of (candidate_of (sample_envelope ?blob)))
              = Inr (JObj [(jsstr ''summary'', JStr (jsstr ''ok''))])"
    by (simp add: sample_js_env_def)
  have h8: "typeof (field (JObj [(jsstr ''summary'', JStr (jsstr ''ok''))])
              (jsstr ''matchPercentage'')) \<noteq> TNumber"
    by simp
  from missing_matchPercentage_rejected [OF h1 h2 h3 h4 h5 h6 h7 h8]
  show ?thesis by (simp add: sample_state_def)
qed

section \<open>Response handling\<close>

lemma extractJSON_ok:
  assumes "\<not> nullish apiResponse"
    and "truthy (jsonText_of (candidate_of apiResponse))"
    and "JSON_parse env (jsonText_of (candidate_of apiResponse)) = Inr parsed"
    and "parsed \<noteq> JNull" and "typeof parsed = TObject"
  shows "extractJSON env apiResponse = Inr parsed"
proof -
  from assms(4,5) have "truthy parsed" by (cases parsed) simp_all
  with assms show ?thesis by (simp add: extractJSON_def extractJSON_try_def)
qed

lemma extractJSON_no_text:
  assumes "\<not> nullish apiResponse"
    and "\<not> truthy (jsonText_of (candidate_of apiResponse))"
  shows "extractJSON env apiResponse =
           Inl (Error (jsstr ''Failed to process analysis: '' @ message invalid_response))"
  using assms by (simp add: extractJSON_def extractJSON_try_def)

lemma extractJSON_not_object:
  assumes "\<not> nullish apiResponse"
    and "truthy (jsonText_of (candidate_of apiResponse))"
    and "JSON_parse env (jsonText_of (candidate_of apiResponse)) = Inr parsed"
    and "parsed = JNull \<or> typeof parsed \<noteq> TObject"
  shows "extractJSON env apiResponse =
           Inl (Error (jsstr ''Failed to process analysis: '' @ message invalid_response))"
  using assms by (auto simp add: extractJSON_def extractJSON_try_def)

text \<open>
  A response that is itself \<open>null\<close> or \<open>undefined\<close> has no envelope to look into: the
  read of \<open>candidates\<close> throws, and the \<open>catch\<close> rethrows the engine's TypeError with
  the same prefix.
\<close>

lemma extractJSON_nullish:
  assumes "nullish apiResponse"
  shows "extractJSON env apiResponse =
           Inl (Error (jsstr ''Failed to process analysis: ''
                       @ message (typeError env (jsstr ''candidates''))))"
  using assms by (simp add: extractJSON_def extractJSON_try_def)

lemma analyzeResume_outcome:
  assumes "resumeText s \<noteq> []" and "jobDescription s \<noteq> []" and "key \<noteq> []"
    and "fetchWithRetry fetch (apiUrl_base @ key)
           (request_of (resumeText s) (jobDescription s)) None = (Inr envelope, trace)"
    and "extractJSON env envelope = Inr parsed"
  shows "analyzeResume env fetch (Some key) s =
           (if typeof (opt_field parsed (jsstr ''matchPercentage'')) \<noteq> TNumber
            then (s\<lparr>loading := False, analysis := JNull,
                    apiError := analysis_failed missing_matchPercentage,
                    originalResumeText := resumeText s\<rparr>, trace)
            else (s\<lparr>loading := False, analysis := parsed, apiError := [],
                    originalResumeText := resumeText s\<rparr>, trace))"
  using assms by (simp add: analyzeResume_def analyzeResume_try_def)

text \<open>
  C10, amended. For a response that is neither \<open>null\<close> nor \<open>undefined\<close>, \<open>extractJSON\<close>
  returns the parsed value whenever the nested text blob is truthy and parses to a value
  that is not \<open>null\<close> and has type object. A JSON array is such a value: it passes
  \<open>extractJSON\<close>, reads \<open>undefined\<close> for \<open>matchPercentage\<close>, and is rejected by the
  check that follows in \<open>analyzeResume\<close>. A blob that is absent or empty, and a blob that
  parses to \<open>null\<close> or to a number, string or boolean, end in the error for an invalid
  or empty response, rethrown by the \<open>catch\<close> with its prefix.
\<close>

theorem extractJSON_object_or_error:
  assumes "\<not> nullish apiResponse"
  shows "(truthy (jsonText_of (candidate_of apiResponse))
          \<and> JSON_parse env (jsonText_of (candidate_of apiResponse)) = Inr parsed
          \<and> parsed \<noteq> JNull \<and> typeof parsed = TObject
          \<longrightarrow> extractJSON env apiResponse = Inr parsed)
       \<and> (truthy (jsonText_of (candidate_of apiResponse))
          \<and> JSON_parse env (jsonText_of (candidate_of apiResponse)) = Inr (JArr xs)
          \<longrightarrow> extractJSON env apiResponse = Inr (JArr xs)
              \<and> typeof (opt_field (JArr xs) (jsstr ''matchPercentage'')) \<noteq> TNumber
              \<and> (resumeText s \<noteq> [] \<and> jobDescription s \<noteq> [] \<and> key \<noteq> []
                 \<and> fetchWithRetry fetch (apiUrl_base @ key)
                      (request_of (resumeText s) (jobDescription s)) None
                    = (Inr apiResponse, trace)
                 \<longrightarrow> analyzeResume env fetch (Some key) s =
                       (s\<lparr>loading := False, analysis := JNull,
                          apiError := analysis_failed missing_matchPercentage,
                          originalResumeText := resumeText s\<rparr>, trace)))
       \<and> (\<not> truthy (jsonText_of (candidate_of apiResponse))
          \<longrightarrow> extractJSON env apiResponse =
                Inl (Error (jsstr ''Failed to process analysis: '' @ message invalid_response)))
       \<and> (truthy (jsonText_of (candidate_of apiResponse))
          \<and> JSON_parse env (jsonText_of (candidate_of apiResponse)) = Inr parsed
          \<and> (parsed = JNull \<or> typeof parsed \<noteq> TObject)
          \<longrightarrow> extractJSON env apiResponse =
                Inl (Error (jsstr ''Failed to process analysis: '' @ message invalid_response)))"
proof (intro conjI impI)
  assume "truthy (jsonText_of (candidate_of apiResponse))
          \<and> JSON_parse env (jsonText_of (candidate_of apiResponse)) = Inr parsed
          \<and> parsed \<noteq> JNull \<and> typeof parsed = TObject"
  with assms show "extractJSON env apiResponse = Inr parsed"
    by (simp add: extractJSON_ok)
next
  assume a: "truthy (jsonText_of (candidate_of apiResponse))
          \<and> JSON_parse env (jsonText_of (candidate_of apiResponse)) = Inr (JArr xs)"
  with assms show ex: "extractJSON env apiResponse = Inr (JArr xs)"
    by (simp add: extractJSON_ok)
  show "typeof (opt_field (JArr xs) (jsstr ''matchPercentage'')) \<noteq> TNumber"
    by (simp add: opt_field_def)
  assume "resumeText s \<noteq> [] \<and> jobDescription s \<noteq> [] \<and> key \<noteq> []
          \<and> fetchWithRetry fetch (apiUrl_base @ key)
               (request_of (resumeText s) (jobDescription s)) None
             = (Inr apiResponse, trace)"
  with ex show "analyzeResume env fetch (Some key) s =
                       (s\<lparr>loading := False, analysis := JNull,
                          apiError := analysis_failed missing_matchPercentage,
                          originalResumeText := resumeText s\<rparr>, trace)"
    by (simp add: analyzeResume_outcome opt_field_def)
next
  assume "\<not> truthy (jsonText_of (candidate_of apiResponse))"
  with assms show "extractJSON env apiResponse =
                Inl (Error (jsstr ''Failed to process analysis: '' @ message invalid_response))"
    by (rule extractJSON_no_text)
next
  assume "truthy (jsonText_of (candidate_of apiResponse))
          \<and> JSON_parse env (jsonText_of (candidate_of apiResponse)) = Inr parsed
          \<and> (parsed = JNull \<or> typeof parsed \<noteq> TObject)"
  with assms show "extractJSON env apiResponse =
                Inl (Error (jsstr ''Failed to process analysis: '' @ message invalid_response))"
    by (simp add: extractJSON_not_object)
qed

lemma sample_envelope_not_nullish: "\<not> nullish (sample_envelope blob)"
  by (simp add: nullish_def sample_envelope_def)

lemma sample_state_texts:
  "resumeText sample_state = jsstr ''Jane Doe Engineer''"
  "jobDescription sample_state = jsstr ''Engineer wanted''"
  by (simp_all add: sample_state_def)

lemma sample_first_ok:
  "fetchWithRetry (sample_transport [sample_ok v]) url options None = (Inr v, [Fetch url options])"
  by (rule fetchWithRetry_first_ok) (simp add: sample_transport_def sample_ok_def)

theorem extractJSON_object_or_error_witness:
  \<open>extractJSON sample_js_env (sample_envelope (JStr (jsstr ''[72]''))) = Inr (JArr [JNum (Fin 72)])
   \<and> analyzeResume sample_js_env
        (sample_transport [sample_ok (sample_envelope (JStr (jsstr ''[72]'')))])
        (Some (jsstr ''k'')) sample_state
       = (sample_state\<lparr>apiError := analysis_failed missing_matchPercentage\<rparr>,
          [Fetch (apiUrl_base @ jsstr ''k'')
             (request_of (jsstr ''Jane Doe Engineer'') (jsstr ''Engineer wanted''))])
   \<and> extractJSON sample_js_env (sample_envelope (JStr (jsstr ''{"matchPercentage": 72}'')))
       = Inr (JObj [(jsstr ''matchPercentage'', JNum (Fin 72))])
   \<and> extractJSON sample_js_env (sample_envelope (JStr (jsstr '''')))
       = Inl (Error (jsstr ''Failed to process analysis: '' @ message invalid_response))
   \<and> extractJSON sample_js_env (sample_envelope JUndefined)
       = Inl (Error (jsstr ''Failed to process analysis: '' @ message invalid_response))
   \<and> extractJSON sample_js_env (sample_envelope (JStr (jsstr ''null'')))
       = Inl (Error (jsstr ''Failed to process analysis: '' @ message invalid_response))
   \<and> extractJSON sample_js_env (sample_envelope (JStr (jsstr ''72'')))
       = Inl (Error (jsstr ''Failed to process analysis: '' @ message invalid_response))\<close>
proof -
  note c10 = extractJSON_object_or_error [OF sample_envelope_not_nullish, where env = sample_js_env]
  let ?arr = \<open>sample_envelope (JStr (jsstr ''[72]''))\<close>
  have 1: \<open>extractJSON sample_js_env ?arr = Inr (JArr [JNum (Fin 72)])
      \<and> analyzeResume sample_js_env (sample_transport [sample_ok ?arr]) (Some (jsstr ''k''))
          sample_state
       = (sample_state\<lparr>apiError := analysis_failed missing_matchPercentage\<rparr>,
          [Fetch (apiUrl_base @ jsstr ''k'')
             (request_of (jsstr ''Jane Doe Engineer'') (jsstr ''Engineer wanted''))])\<close>
    using c10 [where blob1 = \<open>JStr (jsstr ''[72]'')\<close> and xs = "[JNum (Fin 72)]"
                 and s = sample_state and key = "jsstr ''k''"
                 and fetch = "sample_transport [sample_ok ?arr]"]
    by (simp add: sample_js_env_def sample_first_ok sample_state_texts)
       (simp add: sample_state_def)
  have 2: \<open>extractJSON sample_js_env (sample_envelope (JStr (jsstr ''{"matchPercentage": 72}'')))
       = Inr (JObj [(jsstr ''matchPercentage'', JNum (Fin 72))])\<close>
    using c10 [where blob1 = \<open>JStr (jsstr ''{"matchPercentage": 72}'')\<close>
                 and parsed = "JObj [(jsstr ''matchPercentage'', JNum (Fin 72))]"]
    by (simp add: sample_js_env_def)
  have 3: \<open>extractJSON sample_js_env (sample_envelope (JStr (jsstr '''')))
       = Inl (Error (jsstr ''Failed to process analysis: '' @ message invalid_response))\<close>
    using c10 [where blob1 = \<open>JStr (jsstr '''')\<close>] by simp
  have 4: \<open>extractJSON sample_js_env (sample_envelope JUndefined)
       = Inl (Error (jsstr ''Failed to process analysis: '' @ message invalid_response))\<close>
    using c10 [where blob1 = JUndefined] by simp
  have 5: \<open>extractJSON sample_js_env (sample_envelope (JStr (jsstr ''null'')))
       = Inl (Error (jsstr ''Failed to process analysis: '' @ message invalid_response))\<close>
    using c10 [where blob1 = \<open>JStr (jsstr ''null'')\<close> and parsed = JNull]
    by (simp add: sample_js_env_def)
  have 6: \<open>extractJSON sample_js_env (sample_envelope (JStr (jsstr ''72'')))
       = Inl (Error (jsstr ''Failed to process analysis: '' @ message invalid_response))\<close>
    using c10 [where blob1 = \<open>JStr (jsstr ''72'')\<close> and parsed = "JNum (Fin 72)"]
    by (simp add: sample_js_env_def)
  from 1 2 3 4 5 6 show ?thesis by blast
qed

text \<open>
  C10 fails as stated: a response that is \<open>null\<close> has no nested text blob, yet
  \<open>extractJSON\<close> does not throw the error for an invalid or empty response. The read of
  \<open>candidates\<close> throws a TypeError, which the \<open>catch\<close> rethrows with its prefix.
\<close>

theorem extractJSON_null_response_counterexample:
  "jsonText_of (candidate_of JNull) = JUndefined
   \<and> extractJSON sample_js_env JNull
       = Inl (Error (jsstr ''Failed to process analysis: ''
                     @ jsstr ''Cannot read properties (reading '' @ jsstr ''candidates''
                     @ jsstr '')''))
   \<and> extractJSON sample_js_env JNull
       \<noteq> Inl (Error (jsstr ''Failed to process analysis: '' @ message invalid_response))"
proof -
  have blob: "jsonText_of (candidate_of JNull) = JUndefined"
    by (simp add: jsonText_of_def candidate_of_def opt_field_def nullish_def)
  have thrown: "extractJSON sample_js_env JNull
       = Inl (Error (jsstr ''Failed to process analysis: ''
                     @ jsstr ''Cannot read properties (reading '' @ jsstr ''candidates''
                     @ jsstr '')''))"
    by (simp add: extractJSON_nullish nullish_def sample_js_env_def)
  have differ: "jsstr ''Cannot read properties (reading '' @ jsstr ''candidates'' @ jsstr '')''
                  \<noteq> message invalid_response"
    by (simp add: invalid_response_def jsstr_def)
  from blob thrown differ show ?thesis by simp
qed

lemma required_fields_eq:
  "required_fields =
     [jsstr ''matchPercentage'', jsstr ''scoreBreakdown'', jsstr ''atsScore'',
      jsstr ''missingKeywords'', jsstr ''sectionFeedback'', jsstr ''strengths'',
      jsstr ''weaknesses'', jsstr ''keyChanges'', jsstr ''summary'']"
  by (simp add: required_fields_def analysisSchema_def)

lemma AnalysisResults_defaults:
  assumes "field (JObj kvs) (jsstr ''matchPercentage'') = JNum n"
    and "\<forall>k \<in> set required_fields.
           k \<noteq> jsstr ''matchPercentage'' \<longrightarrow> field (JObj kvs) k = JUndefined"
  shows "AnalysisResults env (JObj kvs) False True =
           Inr (Report
             \<lparr>r_matchPercentage = JNum n, r_atsScore = JNum (Fin 0),
              r_keywords = JNum (Fin 0), r_experience = JNum (Fin 0),
              r_skills = JNum (Fin 0), r_education = JNum (Fin 0),
              r_summary = JStr (jsstr ''''),
              r_strengths = [], r_weaknesses = [], r_missingKeywords = [], r_keyChanges = [],
              r_feedback_skills = [], r_feedback_experience = [],
              r_feedback_education = []\<rparr>)"
  using assms
  by (simp add: required_fields_eq AnalysisResults_def js_or_def destructure_def
        opt_field_def nullish_def Let_def)

lemma getSafeScore_undefined: "getSafeScore env JUndefined name = Fin 0"
  by (simp add: getSafeScore_def)

text \<open>
  C6. When the nested text blob parses to an object with a numeric \<open>matchPercentage\<close>
  and none of the other fields that the schema requires, \<open>analyzeResume\<close> stores the object
  and sets no error; the results panel shows that \<open>matchPercentage\<close> and the defaults for
  everything else (0 for the ATS score and the four sub-scores, an empty summary, empty
  lists) without throwing; \<open>ScoreBreakdown\<close> shows 0 for each section and
  \<open>ATSCompatibility\<close> shows no score.
\<close>

theorem absent_fields_default:
  assumes "field (JObj kvs) (jsstr ''matchPercentage'') = JNum n"
    and "\<forall>k \<in> set required_fields.
           k \<noteq> jsstr ''matchPercentage'' \<longrightarrow> field (JObj kvs) k = JUndefined"
    and "resumeText s \<noteq> []" and "jobDescription s \<noteq> []" and "key \<noteq> []"
    and "fetchWithRetry fetch (apiUrl_base @ key)
           (request_of (resumeText s) (jobDescription s)) None = (Inr envelope, trace)"
    and "\<not> nullish envelope"
    and "truthy (jsonText_of (candidate_of envelope))"
    and "JSON_parse env (jsonText_of (candidate_of envelope)) = Inr (JObj kvs)"
  shows "analyzeResume env fetch (Some key) s =
           (s\<lparr>loading := False, analysis := JObj kvs, apiError := [],
              originalResumeText := resumeText s\<rparr>, trace)
       \<and> App_results env (fst (analyzeResume env fetch (Some key) s)) =
           Inr (Report
             \<lparr>r_matchPercentage = JNum n, r_atsScore = JNum (Fin 0),
              r_keywords = JNum (Fin 0), r_experience = JNum (Fin 0),
              r_skills = JNum (Fin 0), r_education = JNum (Fin 0),
              r_summary = JStr (jsstr ''''),
              r_strengths = [], r_weaknesses = [], r_missingKeywords = [], r_keyChanges = [],
              r_feedback_skills = [], r_feedback_experience = [],
              r_feedback_education = []\<rparr>)
       \<and> ScoreBreakdown env (field (JObj kvs) (jsstr ''scoreBreakdown'')) =
           [(jsstr ''skills'', Fin 0), (jsstr ''experience'', Fin 0),
            (jsstr ''education'', Fin 0), (jsstr ''keywords'', Fin 0)]
       \<and> ATSCompatibility (field (JObj kvs) (jsstr ''atsScore'')) =
           (None, jsstr ''Not available'')"
proof -
  have ex: "extractJSON env envelope = Inr (JObj kvs)"
    using assms(7-9) by (simp add: extractJSON_ok)
  have run: "analyzeResume env fetch (Some key) s =
           (s\<lparr>loading := False, analysis := JObj kvs, apiError := [],
              originalResumeText := resumeText s\<rparr>, trace)"
    using analyzeResume_outcome [OF assms(3-6) ex] assms(1)
    by (simp add: opt_field_def nullish_def)
  have sb: "field (JObj kvs) (jsstr ''scoreBreakdown'') = JUndefined"
    and ats: "field (JObj kvs) (jsstr ''atsScore'') = JUndefined"
    using assms(2) by (simp_all add: required_fields_eq)
  have panel: "App_results env (fst (analyzeResume env fetch (Some key) s)) =
      AnalysisResults env (JObj kvs) False True"
    using assms(3,4) by (simp add: run App_results_def)
  note shown = panel [unfolded AnalysisResults_defaults [OF assms(1,2)]]
  have breakdown: "ScoreBreakdown env (field (JObj kvs) (jsstr ''scoreBreakdown'')) =
           [(jsstr ''skills'', Fin 0), (jsstr ''experience'', Fin 0),
            (jsstr ''education'', Fin 0), (jsstr ''keywords'', Fin 0)]"
    by (simp add: sb ScoreBreakdown_def sections_def getSafeScore_undefined)
  have badge: "ATSCompatibility (field (JObj kvs) (jsstr ''atsScore'')) =
           (None, jsstr ''Not available'')"
    by (simp add: ats ATSCompatibility_def normalizedScore_def getATSStatus_def)
  from run shown breakdown badge show ?thesis by blast
qed

theorem absent_fields_default_witness:
  \<open>analyzeResume sample_js_env
      (sample_transport
         [sample_ok (sample_envelope (JStr (jsstr ''{"matchPercentage": 72}'')))])
      (Some (jsstr ''k'')) sample_state
    = (sample_state\<lparr>analysis := JObj [(jsstr ''matchPercentage'', JNum (Fin 72))]\<rparr>,
       [Fetch (apiUrl_base @ jsstr ''k'')
          (request_of (jsstr ''Jane Doe Engineer'') (jsstr ''Engineer wanted''))])
   \<and> App_results sample_js_env
        (sample_state\<lparr>analysis := JObj [(jsstr ''matchPercentage'', JNum (Fin 72))]\<rparr>) =
           Inr (Report
             \<lparr>r_matchPercentage = JNum (Fin 72), r_atsScore = JNum (Fin 0),
              r_keywords = JNum (Fin 0), r_experience = JNum (Fin 0),
              r_skills = JNum (Fin 0), r_education = JNum (Fin 0),
              r_summary = JStr (jsstr ''''),
              r_strengths = [], r_weaknesses = [], r_missingKeywords = [], r_keyChanges = [],
              r_feedback_skills = [], r_feedback_experience = [],
              r_feedback_education = []\<rparr>)\<close>
proof -
  let ?kvs = "[(jsstr ''matchPercentage'', JNum (Fin 72))]"
  let ?blob = \<open>JStr (jsstr ''{"matchPercentage": 72}'')\<close>
  have h1: "field (JObj ?kvs) (jsstr ''matchPercentage'') = JNum (Fin 72)" by simp
  have h2: "\<forall>k \<in> set required_fields.
           k \<noteq> jsstr ''matchPercentage'' \<longrightarrow> field (JObj ?kvs) k = JUndefined"
    by (simp add: required_fields_eq)
  have h3: "resumeText sample_state \<noteq> []" and h4: "jobDescription sample_state \<noteq> []"
    by (simp_all add: sample_state_def)
  have h5: "jsstr ''k'' \<noteq> []" by simp
  have h8: "truthy (jsonText_of (candidate_of (sample_envelope ?blob)))" by simp
  have h9: "JSON_parse sample_js_env (jsonText_of (candidate_of (sample_envelope ?blob)))
              = Inr (JObj ?kvs)"
    by (simp add: sample_js_env_def)
  note w = absent_fields_default
         [OF h1 h2 h3 h4 h5 sample_first_ok sample_envelope_not_nullish h8 h9]
  show ?thesis
    using w [THEN conjunct1] w [THEN conjunct2, THEN conjunct1]
    by (simp add: sample_state_def)
qed

section \<open>Scores shown by the consumers\<close>









section \<open>Classification of an upload\<close>




lemma sample_lower [simp]: "toLowerCase sample_file_env = asciiLower"
  by (simp add: sample_file_env_def)


lemma sample_pages:
  "pdf_pages_loop sep sample_pdf (Suc 0) [] =
     Some (jsstr ''Jane Doe'' @ sep @ jsstr ''Engineer'' @ sep)"
  by (simp add: pdf_pages_loop.simps sample_pdf_def jsstr_def)


lemma trim_sample1:
  "trim (jsstr ''Jane Doe'' @ jsstr ''\<newline>'' @ jsstr ''Engineer'' @ jsstr ''\<newline>'')
     = jsstr ''Jane Doe\<newline>Engineer''"
  by (simp add: trim_def trimStart_def trimEnd_def isWhiteSpace_def jsstr_def)


section \<open>Text of a PDF and failure signals\<close>

lemma pdf_pages_loop_all:
  assumes "\<forall>n. 1 \<le> n \<and> n \<le> numPages pdf \<longrightarrow> pageItems pdf n = Some (items n)"
    and "1 \<le> k"
  shows "pdf_pages_loop sep pdf k acc =
           Some (acc @ concat (map (\<lambda>n. join (jsstr '' '') (items n) @ sep)
                                 [k..<numPages pdf + 1]))"
  using assms
proof (induction sep pdf k acc rule: pdf_pages_loop.induct)
  case (1 sep pdf pageNum fullText)
  show ?case
  proof (cases "pageNum \<le> numPages pdf")
    case True
    with 1(2,3) have page: "pageItems pdf pageNum = Some (items pageNum)" by simp
    from True have range: "[pageNum..<numPages pdf + 1] = pageNum # [pageNum + 1..<numPages pdf + 1]"
      by (simp add: upt_conv_Cons del: upt_Suc)
    from 1(1) [OF True page 1(2)]
    have "pdf_pages_loop sep pdf (pageNum + 1) (fullText @ join (jsstr '' '') (items pageNum) @ sep) =
            Some ((fullText @ join (jsstr '' '') (items pageNum) @ sep)
                  @ concat (map (\<lambda>n. join (jsstr '' '') (items n) @ sep)
                              [pageNum + 1..<numPages pdf + 1]))"
      by simp
    with True page range show ?thesis
      by (subst pdf_pages_loop.simps) simp
  next
    case False
    then show ?thesis by (subst pdf_pages_loop.simps) simp
  qed
qed

lemma concat_sep_join: "xs \<noteq> [] \<Longrightarrow> concat (map (\<lambda>x. x @ sep) xs) = join sep xs @ sep"
  by (induction sep xs rule: join.induct) auto

lemma trim_append_white:
  assumes "\<forall>c \<in> set ws. isWhiteSpace c"
  shows "trim (xs @ ws) = trim xs"
proof (cases "\<forall>c \<in> set xs. isWhiteSpace c")
  case True
  with assms have a: "trimStart (xs @ ws) = []" by (simp add: trimStart_def)
  from True have b: "trimStart xs = []" by (simp add: trimStart_def)
  show ?thesis by (simp only: trim_def a b)
next
  case False
  then obtain x where "x \<in> set xs" and "\<not> isWhiteSpace x" by blast
  then have a: "trimStart (xs @ ws) = trimStart xs @ ws"
    unfolding trimStart_def by (rule dropWhile_append1)
  have "dropWhile isWhiteSpace (rev ws @ rev (trimStart xs))
          = dropWhile isWhiteSpace (rev (trimStart xs))"
    using assms by (intro dropWhile_append2) simp
  then have b: "trimEnd (trimStart xs @ ws) = trimEnd (trimStart xs)"
    by (simp add: trimEnd_def)
  show ?thesis by (simp only: trim_def a b)
qed

lemma trim_pages:
  assumes "\<forall>c \<in> set sep. isWhiteSpace c"
  shows "trim (concat (map (\<lambda>x. x @ sep) xs)) = trim (join sep xs)"
proof (cases "xs = []")
  case True
  then show ?thesis by simp
next
  case False
  then show ?thesis by (simp add: concat_sep_join trim_append_white [OF assms])
qed

lemma pages_text:
  assumes "\<forall>n. 1 \<le> n \<and> n \<le> numPages pdf \<longrightarrow> pageItems pdf n = Some (items n)"
    and "\<forall>c \<in> set sep. isWhiteSpace c"
  shows "map_option trim (pdf_pages_loop sep pdf 1 []) =
           Some (trim (join sep (map (\<lambda>n. join (jsstr '' '') (items n)) [1..<numPages pdf + 1])))"
proof -
  have "pdf_pages_loop sep pdf 1 [] =
          Some (concat (map (\<lambda>x. x @ sep)
                  (map (\<lambda>n. join (jsstr '' '') (items n)) [1..<numPages pdf + 1])))"
    using pdf_pages_loop_all [OF assms(1) order_refl, of sep "[]"]
    by (simp add: comp_def del: upt_Suc)
  then show ?thesis
    by (simp only: option.map trim_pages [OF assms(2)])
qed

text \<open>
  C5, amended. For a document that decodes and whose pages all read, the text is the
  page texts (the items of a page joined by single spaces) in page order from page 1,
  trimmed: joined by a blank line in \<open>readPdfFile\<close>, which \<open>handleFileUpload\<close> calls for
  every file classified as PDF, and joined by a single line feed in \<open>extractText\<close> of the
  drag-and-drop component.
\<close>

theorem pdf_pages_joined:
  assumes "\<forall>n. 1 \<le> n \<and> n \<le> numPages pdf \<longrightarrow> pageItems pdf n = Some (items n)"
    and "getDocument env buf = Some pdf"
  shows "(readAsArrayBuffer env file = ReadLoaded buf \<longrightarrow>
            readPdfFile env file =
              Inr (trim (join (jsstr ''\<newline>\<newline>'')
                     (map (\<lambda>n. join (jsstr '' '') (items n)) [1..<numPages pdf + 1]))))
       \<and> (isPdf env file \<longrightarrow> handleFileUpload_extract env file = readPdfFile env file)
       \<and> (arrayBuffer env file = Some buf \<longrightarrow>
            extractText_try env file =
              Some (trim (join (jsstr ''\<newline>'')
                      (map (\<lambda>n. join (jsstr '' '') (items n)) [1..<numPages pdf + 1]))))"
proof (intro conjI impI)
  have w2: "\<forall>c \<in> set (jsstr ''\<newline>\<newline>''). isWhiteSpace c"
    and w1: "\<forall>c \<in> set (jsstr ''\<newline>''). isWhiteSpace c"
    by (simp_all add: jsstr_def isWhiteSpace_def)
  {
    assume "readAsArrayBuffer env file = ReadLoaded buf"
    with assms(2) pages_text [OF assms(1) w2]
    show "readPdfFile env file =
              Inr (trim (join (jsstr ''\<newline>\<newline>'')
                     (map (\<lambda>n. join (jsstr '' '') (items n)) [1..<numPages pdf + 1])))"
      by (auto simp add: readPdfFile_def split: option.splits)
  }
  {
    assume "isPdf env file"
    then show "handleFileUpload_extract env file = readPdfFile env file"
      by (simp add: handleFileUpload_extract_def)
  }
  {
    assume "arrayBuffer env file = Some buf"
    with assms(2) pages_text [OF assms(1) w1]
    show "extractText_try env file =
              Some (trim (join (jsstr ''\<newline>'')
                      (map (\<lambda>n. join (jsstr '' '') (items n)) [1..<numPages pdf + 1])))"
      by (auto simp add: extractText_try_def split: option.splits)
  }
qed

lemma sample_extractText_try:
  "extractText_try sample_file_env (sample_file type name 2) = Some (jsstr ''Jane Doe\<newline>Engineer'')"
  by (simp add: extractText_try_def sample_file_env_def sample_file_def sample_pages trim_sample1)

theorem pdf_pages_joined_witness:
  "readPdfFile sample_file_env (sample_file ''application/pdf'' ''cv.pdf'' 2)
     = Inr (jsstr ''Jane Doe\<newline>\<newline>Engineer'')
   \<and> handleFileUpload_extract sample_file_env (sample_file ''application/pdf'' ''cv.pdf'' 2)
     = Inr (jsstr ''Jane Doe\<newline>\<newline>Engineer'')
   \<and> extractText_try sample_file_env (sample_file ''application/pdf'' ''cv.pdf'' 2)
     = Some (jsstr ''Jane Doe\<newline>Engineer'')"
proof -
  let ?items = "\<lambda>n::nat. if n = 1 then [jsstr ''Jane'', jsstr ''Doe''] else [jsstr ''Engineer'']"
  let ?f = "sample_file ''application/pdf'' ''cv.pdf'' 2"
  have pages: "\<forall>n. 1 \<le> n \<and> n \<le> numPages sample_pdf \<longrightarrow> pageItems sample_pdf n = Some (?items n)"
    by (simp add: sample_pdf_def)
  have doc: "getDocument sample_file_env 2 = Some sample_pdf"
    by (simp add: sample_file_env_def)
  have r: "readAsArrayBuffer sample_file_env ?f = ReadLoaded 2"
    and a: "arrayBuffer sample_file_env ?f = Some 2"
    and p: "isPdf sample_file_env ?f"
    by (simp_all add: sample_file_env_def sample_file_def isPdf_def)
  have range: "[1..<numPages sample_pdf + 1] = [1, 2]"
    by (simp add: sample_pdf_def upt_rec)
  have t2: "trim (join (jsstr ''\<newline>\<newline>'') (map (\<lambda>n. join (jsstr '' '') (?items n)) [1, 2]))
              = jsstr ''Jane Doe\<newline>\<newline>Engineer''"
    and t1: "trim (join (jsstr ''\<newline>'') (map (\<lambda>n. join (jsstr '' '') (?items n)) [1, 2]))
              = jsstr ''Jane Doe\<newline>Engineer''"
    by (simp_all add: trim_def trimStart_def trimEnd_def isWhiteSpace_def jsstr_def)
  note w = pdf_pages_joined [OF pages doc, of ?f, unfolded range t1 t2]
  from w r a p show ?thesis by simp
qed

text \<open>
  C5 fails as stated for the drag-and-drop component: its \<open>extractText\<close> separates the two
  pages of the sample document by one line feed, not by a blank line.
\<close>

theorem dropzone_single_newline_counterexample:
  "onDrop sample_file_env sample_dropzone_state (Some [sample_file ''application/pdf'' ''cv.pdf'' 2])
     = (sample_dropzone_state\<lparr>dz_fileName := jsstr ''cv.pdf''\<rparr>, [jsstr ''Jane Doe\<newline>Engineer''])
   \<and> trim (join (jsstr ''\<newline>\<newline>'')
             [join (jsstr '' '') [jsstr ''Jane'', jsstr ''Doe''],
              join (jsstr '' '') [jsstr ''Engineer'']])
       = jsstr ''Jane Doe\<newline>\<newline>Engineer''
   \<and> jsstr ''Jane Doe\<newline>Engineer'' \<noteq> jsstr ''Jane Doe\<newline>\<newline>Engineer''"
proof -
  have pdf: "isPdfType sample_file_env (sample_file ''application/pdf'' ''cv.pdf'' 2)"
    by (simp add: isPdfType_def sample_file_def)
  have run: "onDrop sample_file_env sample_dropzone_state
               (Some [sample_file ''application/pdf'' ''cv.pdf'' 2])
     = (sample_dropzone_state\<lparr>dz_fileName := jsstr ''cv.pdf''\<rparr>, [jsstr ''Jane Doe\<newline>Engineer''])"
  proof -
    have "extractText sample_file_env sample_dropzone_state
            (sample_file ''application/pdf'' ''cv.pdf'' 2)
          = (sample_dropzone_state\<lparr>dz_fileName := jsstr ''cv.pdf''\<rparr>,
             [jsstr ''Jane Doe\<newline>Engineer''])"
      by (simp add: extractText_def sample_extractText_try)
         (simp add: sample_dropzone_state_def sample_file_def)
    with pdf show ?thesis by (simp add: onDrop_def)
  qed
  have expected: "trim (join (jsstr ''\<newline>\<newline>'')
             [join (jsstr '' '') [jsstr ''Jane'', jsstr ''Doe''],
              join (jsstr '' '') [jsstr ''Engineer'']])
       = jsstr ''Jane Doe\<newline>\<newline>Engineer''"
    by (simp add: trim_def trimStart_def trimEnd_def isWhiteSpace_def jsstr_def)
  have differ: "jsstr ''Jane Doe\<newline>Engineer'' \<noteq> jsstr ''Jane Doe\<newline>\<newline>Engineer''"
    by simp
  from run expected differ show ?thesis by blast
qed

text \<open>
  C7, amended. Every failure of \<open>handleFileUpload\<close> (unsupported format, PDF parse
  failure, read failure) shows the error and sends the empty string to the caller, which
  clears the resume text; so does a parse failure in \<open>extractText\<close> of the drag-and-drop
  component, also when reached through \<open>onDrop\<close>. The validations of the drag-and-drop
  component (no file, not a PDF, a rejected file) set an error and send nothing to the
  caller.
\<close>

theorem failure_signals:
  "(handleFileUpload_extract env f = Inl e \<longrightarrow>
      handleFileUpload env st (Some f) =
        (st\<lparr>up_error := Some (message e), up_isUploading := False\<rparr>, [jsstr ''''])
      \<and> resumeText (foldl onTextExtracted s (snd (handleFileUpload env st (Some f)))) = [])
   \<and> (extractText_try env f = None \<longrightarrow>
      extractText env dz f =
        (dz\<lparr>dz_error := Some extractText_failed, dz_fileName := jsstr '''',
            dz_isUploading := False\<rparr>, [jsstr ''''])
      \<and> resumeText (foldl onTextExtracted s (snd (extractText env dz f))) = [])
   \<and> (isPdfType env f \<longrightarrow> onDrop env dz (Some (f # rest)) = extractText env dz f)
   \<and> (\<not> isPdfType env f \<longrightarrow>
      dz_error (fst (onDrop env dz (Some (f # rest)))) \<noteq> None
      \<and> snd (onDrop env dz (Some (f # rest))) = [])
   \<and> dz_error (fst (onDrop env dz None)) \<noteq> None \<and> snd (onDrop env dz None) = []
   \<and> dz_error (fst (onDrop env dz (Some []))) \<noteq> None \<and> snd (onDrop env dz (Some [])) = []
   \<and> dz_error (fst (onDropRejected dz (Some (rej # rejs)))) \<noteq> None
   \<and> snd (onDropRejected dz rejections) = []"
proof -
  have rejected: "snd (onDropRejected dz rejections) = []"
    by (simp add: onDropRejected_def split: option.splits list.splits)
  have shown: "dz_error (fst (onDropRejected dz (Some (rej # rejs)))) \<noteq> None"
    by (simp add: onDropRejected_def)
  show ?thesis
    by (simp add: rejected shown handleFileUpload_def extractText_def onDrop_def
          onTextExtracted_def)
qed

theorem failure_signals_witness:
  "handleFileUpload sample_file_env sample_upload_state
     (Some (sample_file ''application/pdf'' ''broken.pdf'' 0))
     = (sample_upload_state\<lparr>up_error := Some (message readPdfFile_failed)\<rparr>, [jsstr ''''])
   \<and> onDrop sample_file_env sample_dropzone_state
       (Some [sample_file ''application/pdf'' ''broken.pdf'' 0])
     = (sample_dropzone_state\<lparr>dz_error := Some extractText_failed, dz_fileName := jsstr ''''\<rparr>,
        [jsstr ''''])
   \<and> snd (onDrop sample_file_env sample_dropzone_state
            (Some [sample_file ''text/plain'' ''notes.txt'' 3])) = []"
proof -
  let ?broken = "sample_file ''application/pdf'' ''broken.pdf'' 0"
  let ?notes = "sample_file ''text/plain'' ''notes.txt'' 3"
  have h1: "handleFileUpload_extract sample_file_env ?broken = Inl readPdfFile_failed"
    by (simp add: handleFileUpload_extract_def isPdf_def readPdfFile_def sample_file_env_def
          sample_file_def)
  have h2: "extractText_try sample_file_env ?broken = None"
    by (simp add: extractText_try_def sample_file_env_def sample_file_def)
  have h3: "isPdfType sample_file_env ?broken"
    by (simp add: isPdfType_def sample_file_def)
  have h4: "\<not> isPdfType sample_file_env ?notes"
    by (simp add: isPdfType_def sample_file_def asciiLower_def endsWith_def jsstr_def)
  note w = failure_signals [where env = sample_file_env and st = sample_upload_state
                              and dz = sample_dropzone_state and rest = "[]"]
  have a: "handleFileUpload sample_file_env sample_upload_state (Some ?broken)
     = (sample_upload_state\<lparr>up_error := Some (message readPdfFile_failed)\<rparr>, [jsstr ''''])"
    using w [where f = ?broken and e = readPdfFile_failed] h1
    by (simp add: sample_upload_state_def)
  have b: "onDrop sample_file_env sample_dropzone_state (Some [?broken])
     = (sample_dropzone_state\<lparr>dz_error := Some extractText_failed, dz_fileName := jsstr ''''\<rparr>,
        [jsstr ''''])"
    using w [where f = ?broken] h2 h3
    by (simp add: sample_dropzone_state_def)
  have c: "snd (onDrop sample_file_env sample_dropzone_state (Some [?notes])) = []"
    using w [where f = ?notes] h4 by simp
  from a b c show ?thesis by blast
qed

text \<open>
  C7 fails as stated: a dropped file that is not a PDF, and a file rejected as too large,
  set the error of the drag-and-drop component without a call of \<open>onTextExtracted\<close>, so
  the resume text of the caller stays as it was.
\<close>

theorem rejected_drop_counterexample:
  "onDrop sample_file_env sample_dropzone_state (Some [sample_file ''text/plain'' ''notes.txt'' 3])
     = (sample_dropzone_state
          \<lparr>dz_error := Some (jsstr ''Please upload a valid PDF file (max 5MB).'')\<rparr>, [])
   \<and> onDropRejected sample_dropzone_state (Some [\<lparr>errors = Some [jsstr ''file-too-large'']\<rparr>])
     = (sample_dropzone_state
          \<lparr>dz_error := Some (jsstr ''File is too large. Maximum allowed size is 5MB.'')\<rparr>, [])
   \<and> resumeText (foldl onTextExtracted sample_state []) = jsstr ''Jane Doe Engineer''"
proof -
  have h4: "\<not> isPdfType sample_file_env (sample_file ''text/plain'' ''notes.txt'' 3)"
    by (simp add: isPdfType_def sample_file_def asciiLower_def endsWith_def jsstr_def)
  then have a: "onDrop sample_file_env sample_dropzone_state
                  (Some [sample_file ''text/plain'' ''notes.txt'' 3])
     = (sample_dropzone_state
          \<lparr>dz_error := Some (jsstr ''Please upload a valid PDF file (max 5MB).'')\<rparr>, [])"
    by (simp add: onDrop_def)
  have b: "onDropRejected sample_dropzone_state (Some [\<lparr>errors = Some [jsstr ''file-too-large'']\<rparr>])
     = (sample_dropzone_state
          \<lparr>dz_error := Some (jsstr ''File is too large. Maximum allowed size is 5MB.'')\<rparr>, [])"
    by (simp add: onDropRejected_def)
  have c: "resumeText (foldl onTextExtracted sample_state []) = jsstr ''Jane Doe Engineer''"
    by (simp add: sample_state_def)
  from a b c show ?thesis by blast
qed

end
